theory Spec2Isabelle
  imports Main "HOL-Library.Word"
begin

section \<open>JavaScript strings\<close>

text \<open>
  A JavaScript string is a sequence of UTF-16 code units. They are modelled as natural
  numbers, so that the white space \<open>String.prototype.trim\<close> removes (which lies partly
  outside Latin-1) can be written out. \<open>js\<close> turns an ASCII literal of the source into
  its code units.
\<close>

type_synonym jsstring = "nat list"

definition js :: "string \<Rightarrow> jsstring" where
  "js s = map of_char s"

text \<open>
  ECMAScript \<open>WhiteSpace\<close> and \<open>LineTerminator\<close>: TAB, LF, VT, FF, CR, SP, NBSP,
  U+1680, U+2000 to U+200A, U+2028, U+2029, U+202F, U+205F, U+3000 and U+FEFF.
\<close>

definition is_white_space :: "nat \<Rightarrow> bool" where
  "is_white_space c =
     (c \<in> set [9, 10, 11, 12, 13, 32, 160, 5760, 8232, 8233, 8239, 8287, 12288, 65279]
      \<or> (8192 \<le> c \<and> c \<le> 8202))"

definition trim :: "jsstring \<Rightarrow> jsstring" where
  "trim s = rev (dropWhile is_white_space (rev (dropWhile is_white_space s)))"

section \<open>Style catalog (shared/types.ts)\<close>

text \<open>The object literal \<open>STYLE_PROMPTS\<close>, as its own properties in source order.\<close>

definition STYLE_PROMPTS :: "(jsstring \<times> jsstring) list" where
  "STYLE_PROMPTS =
    [(js ''lego'', js ''Transform this image into a LEGO brick style artwork, with clear plastic brick textures, vibrant primary colors, and the characteristic blocky LEGO aesthetic. Make it look like it was built with actual LEGO bricks.''),
     (js ''anime'', js ''Transform this image into a Japanese anime style illustration with vibrant colors, distinctive facial features like large expressive eyes, simplified details, and smooth outlines. Use the style commonly seen in popular anime.''),
     (js ''ghibli'', js ''Transform this image into a Studio Ghibli style illustration with soft watercolor-like textures, muted pastel colors, delicate details in nature elements, and the dreamlike quality characteristic of Hayao Miyazaki's films.''),
     (js ''futuristic'', js ''Transform this image into a sci-fi futuristic style with holographic elements, neon lighting, sleek metallic surfaces, advanced technology aesthetics, and a high-contrast color scheme dominated by blues and purples.''),
     (js ''vintage'', js ''Transform this image into a vintage/retro style with faded colors, subtle film grain, slightly washed-out contrast, and the aged aesthetic of photographs from the 1960s-70s.'')]"

text \<open>
  \<open>`${STYLE_PROMPTS[style]}`\<close>: the text the template literal of \<open>transformImage\<close>
  interpolates. An own property gives its template. For any other key the property
  access does not fail: it gives a member inherited from \<open>Object.prototype\<close>
  (\<open>proto\<close> holds the text of each, which depends on the engine) or \<open>undefined\<close>,
  which interpolates as the nine letters.
\<close>

definition stylePrompt_text :: "(jsstring \<Rightarrow> jsstring option) \<Rightarrow> jsstring \<Rightarrow> jsstring" where
  "stylePrompt_text proto style =
     (case map_of STYLE_PROMPTS style of
        Some template \<Rightarrow> template
      | None \<Rightarrow> (case proto style of Some member \<Rightarrow> member | None \<Rightarrow> js ''undefined''))"

text \<open>\<open>styleTransformSchema\<close> of shared/schema.ts: \<open>z.enum\<close> over the five identifiers.\<close>

definition style_enum :: "jsstring list" where
  "style_enum = [js ''lego'', js ''anime'', js ''ghibli'', js ''futuristic'', js ''vintage'']"

text \<open>\<open>safeParse({ style })\<close>: the parsed style on success, \<open>None\<close> on failure.\<close>

definition styleTransformSchema_safeParse :: "jsstring option \<Rightarrow> jsstring option" where
  "styleTransformSchema_safeParse style =
     (case style of
        None \<Rightarrow> None
      | Some s \<Rightarrow> if s \<in> set style_enum then Some s else None)"

section \<open>Transformation pipeline (server/openai.ts)\<close>

text \<open>
  The two calls of the OpenAI client are the external world. A call either throws
  (\<open>Rejects m\<close>, with \<open>m\<close> the text of the thrown value's \<open>message\<close>) or returns.
  For the chat completion, what is returned is read as
  \<open>choices[0].message.content\<close>: a string, or \<open>None\<close> for \<open>null\<close> and \<open>undefined\<close>
  (a response without \<open>choices[0].message\<close> makes that read throw, which is a
  \<open>Rejects\<close> as well, since it happens inside the same \<open>try\<close>). For the image
  generation it is read as \<open>data?.[0]?.url\<close>, \<open>None\<close> when any link is missing.
\<close>

datatype 'a outcome = Rejects jsstring | Resolves 'a

record chat_request =
  chat_model :: jsstring
  chat_text :: jsstring
  chat_image_url :: jsstring
  max_tokens :: nat

record images_request =
  images_model :: jsstring
  images_prompt :: jsstring
  images_n :: nat
  images_size :: jsstring
  images_quality :: jsstring

record openai =
  chat_completions_create :: "chat_request \<Rightarrow> jsstring option outcome"
  images_generate :: "images_request \<Rightarrow> jsstring option outcome"
  object_prototype :: "jsstring \<Rightarrow> jsstring option"

datatype call = Chat_call chat_request | Images_call images_request

definition describe_instruction :: jsstring where
  "describe_instruction =
     js ''Describe this person and the overall scene in detail '' @ [8212]
     @ js '' include facial features, expression, clothing, posture, and background.''"

definition vision_request :: "jsstring \<Rightarrow> chat_request" where
  "vision_request imageBase64 =
     \<lparr>chat_model = js ''gpt-4o'',
      chat_text = describe_instruction,
      chat_image_url = js ''data:image/jpeg;base64,'' @ imageBase64,
      max_tokens = 300\<rparr>"

definition finalPrompt :: "jsstring \<Rightarrow> jsstring \<Rightarrow> jsstring" where
  "finalPrompt stylePrompt imageDescription =
     stylePrompt @ [10, 10] @ js ''Here is the image content to transform:'' @ [10]
     @ imageDescription @ [10, 10]
     @ js ''Preserve the identity, pose, and scene layout while applying the style.''"

definition generation_request :: "jsstring \<Rightarrow> images_request" where
  "generation_request p =
     \<lparr>images_model = js ''dall-e-3'', images_prompt = p, images_n = 1,
      images_size = js ''1024x1024'', images_quality = js ''standard''\<rparr>"

text \<open>The \<open>catch\<close> block: one new \<open>Error\<close> for whatever was thrown inside \<open>try\<close>.\<close>

definition rethrow :: "jsstring \<Rightarrow> jsstring" where
  "rethrow message = js ''Failed to transform image: '' @ message"

text \<open>
  \<open>transformImage\<close> returns the calls it made, in order, and either the message of
  the \<open>Error\<close> it throws (\<open>Inl\<close>) or the URL it returns (\<open>Inr\<close>). The declared type
  of \<open>style\<close> is the union of the five identifiers; at run time it is whatever string
  the caller passes, and the function itself checks nothing.
\<close>

definition transformImage ::
  "openai \<Rightarrow> jsstring \<Rightarrow> jsstring \<Rightarrow> call list \<times> (jsstring + jsstring)" where
  "transformImage api imageBase64 style =
     (let stylePrompt = stylePrompt_text (object_prototype api) style;
          vreq = vision_request imageBase64
      in case chat_completions_create api vreq of
           Rejects m \<Rightarrow> ([Chat_call vreq], Inl (rethrow m))
         | Resolves content \<Rightarrow>
             (case map_option trim content of
                None \<Rightarrow>
                  ([Chat_call vreq],
                   Inl (rethrow (js ''Could not generate description from image.'')))
              | Some imageDescription \<Rightarrow>
                  if imageDescription = [] then
                    ([Chat_call vreq],
                     Inl (rethrow (js ''Could not generate description from image.'')))
                  else
                    (let greq = generation_request (finalPrompt stylePrompt imageDescription)
                     in case images_generate api greq of
                          Rejects m \<Rightarrow> ([Chat_call vreq, Images_call greq], Inl (rethrow m))
                        | Resolves None \<Rightarrow>
                            ([Chat_call vreq, Images_call greq],
                             Inl (rethrow (js ''Failed to generate image URL'')))
                        | Resolves (Some imageUrl) \<Rightarrow>
                            if imageUrl = [] then
                              ([Chat_call vreq, Images_call greq],
                               Inl (rethrow (js ''Failed to generate image URL'')))
                            else ([Chat_call vreq, Images_call greq], Inr imageUrl))))"


section \<open>HTTP surface: POST /api/transform (server/routes.ts)\<close>

text \<open>
  The request body with its two fields, each absent or a string (other JSON values are
  not modelled). A response is the status and the JSON body the handler sends.
\<close>

record transform_body =
  body_style :: "jsstring option"
  body_imageBase64 :: "jsstring option"

datatype response =
  Json_message nat jsstring
  | Json_upload jsstring jsstring
  | Json_transformed jsstring

definition post_api_transform :: "openai \<Rightarrow> transform_body \<Rightarrow> call list \<times> response" where
  "post_api_transform api body =
     (case styleTransformSchema_safeParse (body_style body) of
        None \<Rightarrow> ([], Json_message 400 (js ''Invalid style selected''))
      | Some style \<Rightarrow>
          (case body_imageBase64 body of
             None \<Rightarrow> ([], Json_message 400 (js ''No image data provided''))
           | Some imageBase64 \<Rightarrow>
               if imageBase64 = [] then ([], Json_message 400 (js ''No image data provided''))
               else
                 (case transformImage api imageBase64 style of
                    (calls, Inr transformedImageUrl) \<Rightarrow> (calls, Json_transformed transformedImageUrl)
                  | (calls, Inl message) \<Rightarrow>
                      (calls,
                       Json_message 500
                         (if message = [] then js ''Failed to transform image'' else message)))))"

section \<open>Record store (server/storage.ts)\<close>

text \<open>
  A JavaScript \<open>Map\<close> keeps its entries in insertion order: \<open>set\<close> on a key the map
  has replaces the value where it stands, on a new key it appends. Identifiers and
  counters are JavaScript numbers holding integers; they are modelled as integers
  (number arithmetic is exact on them below \<open>2^53\<close>).
\<close>

type_synonym 'v jsmap = "(int \<times> 'v) list"

fun Map_set :: "'v jsmap \<Rightarrow> int \<Rightarrow> 'v \<Rightarrow> 'v jsmap" where
  "Map_set [] k v = [(k, v)]"
| "Map_set ((k', v') # m) k v = (if k' = k then (k, v) # m else (k', v') # Map_set m k v)"

definition Map_get :: "'v jsmap \<Rightarrow> int \<Rightarrow> 'v option" where
  "Map_get m k = map_of m k"

definition Map_values :: "'v jsmap \<Rightarrow> 'v list" where
  "Map_values m = map snd m"

record InsertUser =
  ins_username :: jsstring
  ins_password :: jsstring

record User =
  user_id :: int
  username :: jsstring
  password :: jsstring

record InsertImage =
  ins_originalFilename :: jsstring
  ins_originalUrl :: jsstring
  ins_userId :: "int option"

record Image =
  image_id :: int
  originalFilename :: jsstring
  originalUrl :: jsstring
  userId :: "int option"
  image_createdAt :: jsstring

record InsertTransformation =
  ins_imageId :: int
  ins_style :: jsstring
  ins_transformedUrl :: jsstring

record Transformation =
  transformation_id :: int
  imageId :: int
  transformation_style :: jsstring
  transformedUrl :: jsstring
  transformation_createdAt :: jsstring

record MemStorage =
  users :: "User jsmap"
  images :: "Image jsmap"
  transformations :: "Transformation jsmap"
  userIdCounter :: int
  imageIdCounter :: int
  transformationIdCounter :: int

text \<open>The constructor.\<close>

definition new_MemStorage :: MemStorage where
  "new_MemStorage =
     \<lparr>users = [], images = [], transformations = [],
      userIdCounter = 1, imageIdCounter = 1, transformationIdCounter = 1\<rparr>"

definition getUser :: "MemStorage \<Rightarrow> int \<Rightarrow> User option" where
  "getUser s i = Map_get (users s) i"

definition getUserByUsername :: "MemStorage \<Rightarrow> jsstring \<Rightarrow> User option" where
  "getUserByUsername s name = find (\<lambda>user. username user = name) (Map_values (users s))"

definition createUser :: "MemStorage \<Rightarrow> InsertUser \<Rightarrow> User \<times> MemStorage" where
  "createUser s insertUser =
     (let i = userIdCounter s;
          user = \<lparr>user_id = i, username = ins_username insertUser,
                  password = ins_password insertUser\<rparr>
      in (user, s\<lparr>userIdCounter := i + 1, users := Map_set (users s) i user\<rparr>))"

definition getImage :: "MemStorage \<Rightarrow> int \<Rightarrow> Image option" where
  "getImage s i = Map_get (images s) i"

text \<open>\<open>now\<close> is what \<open>new Date().toISOString()\<close> gives at the call.\<close>

definition createImage :: "MemStorage \<Rightarrow> InsertImage \<Rightarrow> jsstring \<Rightarrow> Image \<times> MemStorage" where
  "createImage s insertImage now =
     (let i = imageIdCounter s;
          image = \<lparr>image_id = i, originalFilename = ins_originalFilename insertImage,
                   originalUrl = ins_originalUrl insertImage, userId = ins_userId insertImage,
                   image_createdAt = now\<rparr>
      in (image, s\<lparr>imageIdCounter := i + 1, images := Map_set (images s) i image\<rparr>))"

definition getTransformation :: "MemStorage \<Rightarrow> int \<Rightarrow> Transformation option" where
  "getTransformation s i = Map_get (transformations s) i"

definition getTransformationsByImageId :: "MemStorage \<Rightarrow> int \<Rightarrow> Transformation list" where
  "getTransformationsByImageId s i =
     filter (\<lambda>transformation. imageId transformation = i) (Map_values (transformations s))"

definition createTransformation ::
  "MemStorage \<Rightarrow> InsertTransformation \<Rightarrow> jsstring \<Rightarrow> Transformation \<times> MemStorage" where
  "createTransformation s insertTransformation now =
     (let i = transformationIdCounter s;
          transformation =
            \<lparr>transformation_id = i, imageId = ins_imageId insertTransformation,
             transformation_style = ins_style insertTransformation,
             transformedUrl = ins_transformedUrl insertTransformation,
             transformation_createdAt = now\<rparr>
      in (transformation,
          s\<lparr>transformationIdCounter := i + 1,
            transformations := Map_set (transformations s) i transformation\<rparr>))"

text \<open>
  The store changes only through the three create methods, so its reachable states are
  those a sequence of creates leads to from the constructor's. \<open>run\<close> performs such a
  sequence and collects the records the calls returned, in call order.
\<close>

datatype create_call =
  CreateUser InsertUser
  | CreateImage InsertImage jsstring
  | CreateTransformation InsertTransformation jsstring

datatype created =
  CreatedUser User
  | CreatedImage Image
  | CreatedTransformation Transformation

fun perform :: "MemStorage \<Rightarrow> create_call \<Rightarrow> created \<times> MemStorage" where
  "perform s (CreateUser u) = (case createUser s u of (r, s') \<Rightarrow> (CreatedUser r, s'))"
| "perform s (CreateImage i now) =
     (case createImage s i now of (r, s') \<Rightarrow> (CreatedImage r, s'))"
| "perform s (CreateTransformation t now) =
     (case createTransformation s t now of (r, s') \<Rightarrow> (CreatedTransformation r, s'))"

fun run :: "MemStorage \<Rightarrow> create_call list \<Rightarrow> created list \<times> MemStorage" where
  "run s [] = ([], s)"
| "run s (c # cs) =
     (case perform s c of (r, s') \<Rightarrow> (case run s' cs of (rs, s'') \<Rightarrow> (r # rs, s'')))"

fun created_users :: "created list \<Rightarrow> User list" where
  "created_users [] = []"
| "created_users (CreatedUser u # rs) = u # created_users rs"
| "created_users (_ # rs) = created_users rs"

fun created_images :: "created list \<Rightarrow> Image list" where
  "created_images [] = []"
| "created_images (CreatedImage i # rs) = i # created_images rs"
| "created_images (_ # rs) = created_images rs"

fun created_transformations :: "created list \<Rightarrow> Transformation list" where
  "created_transformations [] = []"
| "created_transformations (CreatedTransformation t # rs) = t # created_transformations rs"
| "created_transformations (_ # rs) = created_transformations rs"


section \<open>Upload: validation and encoding\<close>

subsection \<open>Base64\<close>

text \<open>
  \<open>buffer.toString("base64")\<close> is the Base64 encoding of RFC 4648 with the standard
  alphabet and \<open>=\<close> padding (code unit 61): three bytes become four characters.
  \<open>base64_decode\<close> is the decoding of the same RFC.
\<close>

type_synonym byte = "8 word"

definition base64_alphabet :: jsstring where
  "base64_alphabet = js ''ABCDEFGHIJKLMNOPQRSTUVWXYZabcdefghijklmnopqrstuvwxyz0123456789+/''"

definition sextet_char :: "nat \<Rightarrow> nat" where
  "sextet_char v = base64_alphabet ! (v mod 64)"

fun base64 :: "byte list \<Rightarrow> jsstring" where
  "base64 (a # b # c # rest) =
     (let v = unat a * 65536 + unat b * 256 + unat c
      in sextet_char (v div 262144) # sextet_char (v div 4096) # sextet_char (v div 64)
         # sextet_char v # base64 rest)"
| "base64 [a, b] =
     (let v = unat a * 65536 + unat b * 256
      in [sextet_char (v div 262144), sextet_char (v div 4096), sextet_char (v div 64), 61])"
| "base64 [a] =
     (let v = unat a * 65536
      in [sextet_char (v div 262144), sextet_char (v div 4096), 61, 61])"
| "base64 [] = []"

fun index_of :: "'a \<Rightarrow> 'a list \<Rightarrow> nat option" where
  "index_of x [] = None"
| "index_of x (y # ys) = (if x = y then Some 0 else map_option Suc (index_of x ys))"

definition char_sextet :: "nat \<Rightarrow> nat option" where
  "char_sextet ch = index_of ch base64_alphabet"

fun base64_decode :: "jsstring \<Rightarrow> byte list option" where
  "base64_decode [] = Some []"
| "base64_decode (c1 # c2 # c3 # c4 # rest) =
     (case (char_sextet c1, char_sextet c2) of
        (Some v1, Some v2) \<Rightarrow>
          if c3 = 61 \<and> c4 = 61 \<and> rest = [] then
            Some [of_nat ((v1 * 64 + v2) div 16)]
          else
            (case char_sextet c3 of
               None \<Rightarrow> None
             | Some v3 \<Rightarrow>
                 if c4 = 61 \<and> rest = [] then
                   (let v = v1 * 4096 + v2 * 64 + v3
                    in Some [of_nat (v div 1024), of_nat (v div 4 mod 256)])
                 else
                   (case char_sextet c4 of
                      None \<Rightarrow> None
                    | Some v4 \<Rightarrow>
                        (case base64_decode rest of
                           None \<Rightarrow> None
                         | Some bytes \<Rightarrow>
                             (let v = v1 * 262144 + v2 * 4096 + v3 * 64 + v4
                              in Some (of_nat (v div 65536) # of_nat (v div 256 mod 256)
                                       # of_nat (v mod 256) # bytes)))))
      | _ \<Rightarrow> None)"
| "base64_decode _ = None"

subsection \<open>The multer upload of server/routes.ts\<close>

text \<open>
  \<open>multer\<close> is a library outside the sources; this is what it does with the options
  the source passes. \<open>fileFilter\<close> is called for the file part, from its headers, before
  the file is stored, and an error it passes fails the upload. \<open>limits.fileSize\<close> goes
  to the multipart parser (busboy 1.x), which counts the bytes of the file as it reads
  them and reports the limit as soon as the count reaches \<open>fileSize\<close>; the upload then
  fails with the library's error "File too large". So a file of exactly \<open>fileSize\<close>
  bytes fails as a larger one does, and the files admitted are those below the limit.
\<close>

record uploaded_file =
  originalname :: jsstring
  mimetype :: jsstring
  buffer :: "byte list"

definition startsWith :: "jsstring \<Rightarrow> jsstring \<Rightarrow> bool" where
  "startsWith s p = (take (length p) s = p)"

definition allowed_types :: "jsstring list" where
  "allowed_types = [js ''image/jpeg'', js ''image/png'', js ''image/webp'']"

text \<open>The \<open>fileFilter\<close> option: \<open>Some\<close> the message of the error it passes, \<open>None\<close> when it accepts.\<close>

definition fileFilter :: "jsstring \<Rightarrow> jsstring option" where
  "fileFilter mime =
     (if \<not> startsWith mime (js ''image/'') then Some (js ''Only image files are allowed'')
      else if mime \<notin> set allowed_types then
        Some (js ''Please upload a valid image (JPG, PNG, WEBP)'')
      else None)"

definition fileSize :: nat where
  "fileSize = 5 * 1024 * 1024"

text \<open>
  \<open>upload.single("image")\<close> on a request with or without a file part: \<open>Inl\<close> the message
  of the error the middleware passes on (the route handler does not run), \<open>Inr\<close> the
  value of \<open>req.file\<close>.
\<close>

definition upload_single :: "uploaded_file option \<Rightarrow> jsstring + uploaded_file option" where
  "upload_single part =
     (case part of
        None \<Rightarrow> Inr None
      | Some file \<Rightarrow>
          (case fileFilter (mimetype file) of
             Some message \<Rightarrow> Inl message
           | None \<Rightarrow>
               if length (buffer file) \<ge> fileSize then Inl (js ''File too large'')
               else Inr (Some file)))"

definition post_api_upload :: "uploaded_file option \<Rightarrow> jsstring + response" where
  "post_api_upload part =
     (case upload_single part of
        Inl message \<Rightarrow> Inl message
      | Inr None \<Rightarrow> Inr (Json_message 400 (js ''No image file uploaded''))
      | Inr (Some file) \<Rightarrow> Inr (Json_upload (base64 (buffer file)) (originalname file)))"

subsection \<open>The validators of shared/schema.ts and of the client's uploader\<close>

text \<open>A browser \<open>File\<close>, as far as the validators read it.\<close>

record browser_file =
  file_size :: nat
  file_type :: jsstring

text \<open>
  \<open>imageUploadSchema\<close>: the messages of the refinements that fail, in the order of the
  chain (a failed \<open>refine\<close> does not stop the next one); the file is valid when there
  is none.
\<close>

definition imageUploadSchema :: "browser_file \<Rightarrow> jsstring list" where
  "imageUploadSchema file =
     (if file_size file < 5 * 1024 * 1024 then [] else [js ''Image size should not exceed 5MB''])
     @ (if file_type file \<in> set allowed_types then []
        else [js ''Please upload a valid image (JPG, PNG, WEBP)''])"

text \<open>\<open>validateFile\<close> of the uploader component: the error message, or \<open>None\<close> for \<open>null\<close>.\<close>

definition validateFile :: "browser_file \<Rightarrow> jsstring option" where
  "validateFile file =
     (if file_type file \<notin> set allowed_types then
        Some (js ''Please upload a valid image (JPG, PNG, WEBP)'')
      else if file_size file > 5 * 1024 * 1024 then Some (js ''Image size should not exceed 5MB'')
      else None)"


section \<open>Invariant and sample inputs\<close>

text \<open>
  What holds of the store in every state the create methods reach: each counter is the
  next identifier to hand out, and the keys of each map are the identifiers below it, in
  order.
\<close>

definition counters_ok :: "MemStorage \<Rightarrow> bool" where
  "counters_ok s \<longleftrightarrow>
     1 \<le> userIdCounter s \<and> map fst (users s) = [1..userIdCounter s - 1]
     \<and> 1 \<le> imageIdCounter s \<and> map fst (images s) = [1..imageIdCounter s - 1]
     \<and> 1 \<le> transformationIdCounter s
     \<and> map fst (transformations s) = [1..transformationIdCounter s - 1]"


text \<open>Sample records and a sample sequence of calls.\<close>

definition alice :: InsertUser where
  "alice = \<lparr>ins_username = js ''alice'', ins_password = js ''secret''\<rparr>"

definition alice_again :: InsertUser where
  "alice_again = \<lparr>ins_username = js ''alice'', ins_password = js ''other''\<rparr>"

definition photo :: InsertImage where
  "photo = \<lparr>ins_originalFilename = js ''cat.png'', ins_originalUrl = js ''/uploads/cat.png'',
             ins_userId = None\<rparr>"

definition as_anime :: "int \<Rightarrow> InsertTransformation" where
  "as_anime i = \<lparr>ins_imageId = i, ins_style = js ''anime'',
                  ins_transformedUrl = js ''https://images.example/anime.png''\<rparr>"

definition as_lego :: "int \<Rightarrow> InsertTransformation" where
  "as_lego i = \<lparr>ins_imageId = i, ins_style = js ''lego'',
                 ins_transformedUrl = js ''https://images.example/lego.png''\<rparr>"

definition example_calls :: "create_call list" where
  "example_calls =
     [CreateUser alice,
      CreateImage photo (js ''2025-01-01T00:00:00.000Z''),
      CreateTransformation (as_anime 1) (js ''2025-01-01T00:00:01.000Z''),
      CreateTransformation (as_lego 7) (js ''2025-01-01T00:00:02.000Z''),
      CreateUser alice_again,
      CreateTransformation (as_lego 1) (js ''2025-01-01T00:00:03.000Z'')]"


text \<open>Sample worlds for the two external calls.\<close>

definition smiling_world :: openai where
  "smiling_world =
     \<lparr>chat_completions_create = (\<lambda>_. Resolves (Some (js ''a smiling person outdoors''))),
      images_generate = (\<lambda>_. Resolves (Some (js ''https://images.example/out.png''))),
      object_prototype = (\<lambda>_. None)\<rparr>"

definition blank_world :: openai where
  "blank_world =
     \<lparr>chat_completions_create = (\<lambda>_. Resolves (Some [32])),
      images_generate = (\<lambda>_. Resolves (Some (js ''https://images.example/out.png''))),
      object_prototype = (\<lambda>_. None)\<rparr>"

definition empty_world :: openai where
  "empty_world =
     \<lparr>chat_completions_create = (\<lambda>_. Resolves (Some [])),
      images_generate = (\<lambda>_. Resolves (Some (js ''https://images.example/out.png''))),
      object_prototype = (\<lambda>_. None)\<rparr>"

definition describe_down_world :: openai where
  "describe_down_world =
     \<lparr>chat_completions_create = (\<lambda>_. Rejects (js ''Connection error.'')),
      images_generate = (\<lambda>_. Resolves (Some (js ''https://images.example/out.png''))),
      object_prototype = (\<lambda>_. None)\<rparr>"

definition generate_down_world :: openai where
  "generate_down_world =
     \<lparr>chat_completions_create = (\<lambda>_. Resolves (Some (js ''a smiling person outdoors''))),
      images_generate = (\<lambda>_. Rejects (js ''Connection error.'')),
      object_prototype = (\<lambda>_. None)\<rparr>"

definition anime_template :: jsstring where
  "anime_template = js ''Transform this image into a Japanese anime style illustration with vibrant colors, distinctive facial features like large expressive eyes, simplified details, and smooth outlines. Use the style commonly seen in popular anime.''"

text \<open>Sample uploads.\<close>

definition png_file :: uploaded_file where
  "png_file = \<lparr>originalname = js ''cat.png'', mimetype = js ''image/png'',
                 buffer = [0x89, 0x50, 0x4E, 0x47, 0x0D]\<rparr>"

definition big_jpeg_file :: uploaded_file where
  "big_jpeg_file = \<lparr>originalname = js ''big.jpg'', mimetype = js ''image/jpeg'',
                      buffer = replicate (6 * 1024 * 1024) 0\<rparr>"

definition big_text_file :: uploaded_file where
  "big_text_file = \<lparr>originalname = js ''notes.txt'', mimetype = js ''text/plain'',
                      buffer = replicate (6 * 1024 * 1024) 0\<rparr>"

definition limit_png_file :: uploaded_file where
  "limit_png_file = \<lparr>originalname = js ''edge.png'', mimetype = js ''image/png'',
                       buffer = replicate (5 * 1024 * 1024) 0\<rparr>"

definition big_jpeg :: browser_file where
  "big_jpeg = \<lparr>file_size = 6 * 1024 * 1024, file_type = js ''image/jpeg''\<rparr>"

definition big_text :: browser_file where
  "big_text = \<lparr>file_size = 6 * 1024 * 1024, file_type = js ''text/plain''\<rparr>"

definition limit_png :: browser_file where
  "limit_png = \<lparr>file_size = 5 * 1024 * 1024, file_type = js ''image/png''\<rparr>"

section \<open>The transformation pipeline\<close>

lemma js_eq_iff: "js a = js b \<longleftrightarrow> a = b"
  unfolding js_def by (simp add: inj_on_def)

lemma js_append: "js (a @ b) = js a @ js b"
  by (simp add: js_def)

lemma js_Nil_iff: "js a = [] \<longleftrightarrow> a = []"
  by (simp add: js_def)

lemma trim_black:
  assumes "s \<noteq> []" and "\<not> is_white_space (hd s)" and "\<not> is_white_space (last s)"
  shows "trim s = s"
proof -
  have a: "dropWhile is_white_space s = s"
    using assms(1,2) by (cases s) simp_all
  have b: "dropWhile is_white_space (rev s) = rev s"
    using assms(1,3) by (cases "rev s") (simp_all add: hd_rev [symmetric])
  show ?thesis by (simp add: trim_def a b)
qed

lemma trim_smiling: "trim (js ''a smiling person outdoors'') = js ''a smiling person outdoors''"
  by (rule trim_black) (simp_all add: js_def is_white_space_def)

lemma STYLE_PROMPTS_anime: "map_of STYLE_PROMPTS (js ''anime'') = Some anime_template"
  by (simp add: STYLE_PROMPTS_def js_eq_iff anime_template_def)

lemma STYLE_PROMPTS_other: "s \<notin> set style_enum \<Longrightarrow> map_of STYLE_PROMPTS s = None"
  by (simp add: STYLE_PROMPTS_def style_enum_def)

lemma cubist_not_a_style: "js ''cubist'' \<notin> set style_enum"
  by (simp add: style_enum_def js_eq_iff)

lemma transformImage_described:
  assumes "chat_completions_create api (vision_request imageBase64) = Resolves (Some description)"
      and "trim description \<noteq> []"
  shows "transformImage api imageBase64 style =
     (let greq = generation_request
            (finalPrompt (stylePrompt_text (object_prototype api) style) (trim description))
      in case images_generate api greq of
           Rejects m \<Rightarrow>
             ([Chat_call (vision_request imageBase64), Images_call greq], Inl (rethrow m))
         | Resolves None \<Rightarrow>
             ([Chat_call (vision_request imageBase64), Images_call greq],
              Inl (rethrow (js ''Failed to generate image URL'')))
         | Resolves (Some imageUrl) \<Rightarrow>
             if imageUrl = [] then
               ([Chat_call (vision_request imageBase64), Images_call greq],
                Inl (rethrow (js ''Failed to generate image URL'')))
             else ([Chat_call (vision_request imageBase64), Images_call greq], Inr imageUrl))"
  using assms by (simp add: transformImage_def Let_def)

lemma transformImage_undescribed:
  assumes "chat_completions_create api (vision_request imageBase64) = Resolves content"
      and "content = None \<or> (\<exists>d. content = Some d \<and> trim d = [])"
  shows "transformImage api imageBase64 style =
     ([Chat_call (vision_request imageBase64)],
      Inl (rethrow (js ''Could not generate description from image.'')))"
  using assms by (auto simp add: transformImage_def Let_def)

lemma rethrow_undescribed:
  "rethrow (js ''Could not generate description from image.'')
   = js ''Failed to transform image: Could not generate description from image.''"
  by (simp add: rethrow_def js_append [symmetric])

lemma rethrow_connection:
  "rethrow (js ''Connection error.'') = js ''Failed to transform image: Connection error.''"
  by (simp add: rethrow_def js_append [symmetric])

text \<open>
  Claim C1, as the code has it. For every image and every style identifier of the
  catalog: if the chat completion returns a description that is not empty once
  \<open>trim\<close> has removed the white space around it, and the image generation returns a
  non-empty URL, then \<open>transformImage\<close> returns exactly that URL after exactly two calls,
  and the one prompt passed to the image generation is the style's template, two line
  feeds, "Here is the image content to transform:", a line feed, the trimmed
  description, two line feeds, and "Preserve the identity, pose, and scene layout while
  applying the style."; so the template stands before the description.
\<close>

theorem transform_returns_url:
  assumes "map_of STYLE_PROMPTS style = Some template"
      and "chat_completions_create api (vision_request imageBase64) = Resolves (Some description)"
      and "trim description \<noteq> []"
      and "images_generate api
             (generation_request
                (template @ [10, 10] @ js ''Here is the image content to transform:'' @ [10]
                 @ trim description @ [10, 10]
                 @ js ''Preserve the identity, pose, and scene layout while applying the style.''))
           = Resolves (Some url)"
      and "url \<noteq> []"
  shows "transformImage api imageBase64 style =
     ([Chat_call (vision_request imageBase64),
       Images_call
         (generation_request
            (template @ [10, 10] @ js ''Here is the image content to transform:'' @ [10]
             @ trim description @ [10, 10]
             @ js ''Preserve the identity, pose, and scene layout while applying the style.''))],
      Inr url)"
  using assms
  by (simp add: transformImage_described stylePrompt_text_def finalPrompt_def Let_def)

theorem transform_returns_url_witness:
  "transformImage smiling_world (js ''aGVsbG8='') (js ''anime'') =
     ([Chat_call (vision_request (js ''aGVsbG8='')),
       Images_call
         (generation_request
            (anime_template
             @ [10, 10] @ js ''Here is the image content to transform:'' @ [10]
             @ js ''a smiling person outdoors'' @ [10, 10]
             @ js ''Preserve the identity, pose, and scene layout while applying the style.''))],
      Inr (js ''https://images.example/out.png''))"
  using transform_returns_url [of "js ''anime''" anime_template smiling_world "js ''aGVsbG8=''"
      "js ''a smiling person outdoors''" "js ''https://images.example/out.png''",
      OF STYLE_PROMPTS_anime]
  by (simp add: smiling_world_def trim_smiling js_Nil_iff)

text \<open>
  The claim as the specification words it asks only for a non-empty description. A
  description of one space is not empty, the generation would return a URL, and
  \<open>transformImage\<close> fails without invoking it.
\<close>

theorem transform_blank_description_counterexample:
  "chat_completions_create blank_world (vision_request (js ''aGVsbG8='')) = Resolves (Some [32])
   \<and> [32] \<noteq> ([] :: jsstring)
   \<and> images_generate blank_world (generation_request (finalPrompt anime_template [32]))
       = Resolves (Some (js ''https://images.example/out.png''))
   \<and> transformImage blank_world (js ''aGVsbG8='') (js ''anime'') =
       ([Chat_call (vision_request (js ''aGVsbG8=''))],
        Inl (js ''Failed to transform image: Could not generate description from image.''))"
proof -
  have "trim [32] = []"
    by (simp add: trim_def is_white_space_def)
  then have "transformImage blank_world (js ''aGVsbG8='') (js ''anime'') =
       ([Chat_call (vision_request (js ''aGVsbG8=''))],
        Inl (js ''Failed to transform image: Could not generate description from image.''))"
    using transformImage_undescribed [of blank_world "js ''aGVsbG8=''" "Some [32]" "js ''anime''"]
    by (simp add: blank_world_def rethrow_undescribed)
  then show ?thesis by (simp add: blank_world_def)
qed

text \<open>
  Claim C2. For every image and style, if the chat completion returns a missing
  (\<open>null\<close> or \<open>undefined\<close>) or empty description, \<open>transformImage\<close> fails with the
  error "Failed to transform image: Could not generate description from image.", the
  code's form of a description that is unavailable, and the only call it has made is
  the chat completion: the image generation is never invoked.
\<close>

theorem transform_description_unavailable:
  assumes "chat_completions_create api (vision_request imageBase64) = Resolves content"
      and "content = None \<or> content = Some []"
  shows "transformImage api imageBase64 style =
     ([Chat_call (vision_request imageBase64)],
      Inl (js ''Failed to transform image: Could not generate description from image.''))"
  using assms transformImage_undescribed [of api imageBase64 content style]
  by (auto simp add: rethrow_undescribed trim_def)

theorem transform_description_unavailable_witness:
  "transformImage empty_world (js ''aGVsbG8='') (js ''anime'') =
     ([Chat_call (vision_request (js ''aGVsbG8=''))],
      Inl (js ''Failed to transform image: Could not generate description from image.''))"
  using transform_description_unavailable [of empty_world "js ''aGVsbG8=''" "Some []" "js ''anime''"]
  by (simp add: empty_world_def)

text \<open>
  Claim C3, as the code has it. A failure of either external call is caught by the one
  \<open>catch\<close> of \<open>transformImage\<close> and thrown again as a single new error whose message
  is "Failed to transform image: " followed by the message of the original error. The
  prefix is the same whichever call failed; of the cause, its message is what is carried.
\<close>

theorem transform_failure_rethrown:
  "(chat_completions_create api (vision_request imageBase64) = Rejects m \<longrightarrow>
      transformImage api imageBase64 style =
        ([Chat_call (vision_request imageBase64)], Inl (js ''Failed to transform image: '' @ m)))
   \<and> (chat_completions_create api' (vision_request imageBase64) = Resolves (Some description)
       \<and> trim description \<noteq> []
       \<and> images_generate api'
            (generation_request
               (finalPrompt (stylePrompt_text (object_prototype api') style) (trim description)))
          = Rejects m \<longrightarrow>
      transformImage api' imageBase64 style =
        ([Chat_call (vision_request imageBase64),
          Images_call
            (generation_request
               (finalPrompt (stylePrompt_text (object_prototype api') style) (trim description)))],
         Inl (js ''Failed to transform image: '' @ m)))"
proof (intro conjI impI)
  assume "chat_completions_create api (vision_request imageBase64) = Rejects m"
  then show "transformImage api imageBase64 style =
        ([Chat_call (vision_request imageBase64)], Inl (js ''Failed to transform image: '' @ m))"
    by (simp add: transformImage_def Let_def rethrow_def)
next
  assume a: "chat_completions_create api' (vision_request imageBase64) = Resolves (Some description)
       \<and> trim description \<noteq> []
       \<and> images_generate api'
            (generation_request
               (finalPrompt (stylePrompt_text (object_prototype api') style) (trim description)))
          = Rejects m"
  then show "transformImage api' imageBase64 style =
        ([Chat_call (vision_request imageBase64),
          Images_call
            (generation_request
               (finalPrompt (stylePrompt_text (object_prototype api') style) (trim description)))],
         Inl (js ''Failed to transform image: '' @ m))"
    using transformImage_described [of api' imageBase64 description style]
    by (simp add: Let_def rethrow_def)
qed

theorem transform_failure_rethrown_witness:
  "transformImage describe_down_world (js ''aGVsbG8='') (js ''anime'') =
     ([Chat_call (vision_request (js ''aGVsbG8=''))],
      Inl (js ''Failed to transform image: '' @ js ''Connection error.''))
   \<and> transformImage generate_down_world (js ''aGVsbG8='') (js ''anime'') =
     ([Chat_call (vision_request (js ''aGVsbG8='')),
       Images_call
         (generation_request (finalPrompt anime_template (js ''a smiling person outdoors'')))],
      Inl (js ''Failed to transform image: '' @ js ''Connection error.''))"
  using transform_failure_rethrown [of describe_down_world "js ''aGVsbG8=''"
      "js ''Connection error.''" "js ''anime''" generate_down_world
      "js ''a smiling person outdoors''"]
  by (simp add: describe_down_world_def generate_down_world_def trim_smiling js_Nil_iff
      stylePrompt_text_def STYLE_PROMPTS_anime)

text \<open>
  The same connection error thrown by the description call in one world and by the
  generation call in another gives the same error: the message names no stage.
\<close>

theorem transform_failure_stage_counterexample:
  "chat_completions_create describe_down_world (vision_request (js ''aGVsbG8=''))
     = Rejects (js ''Connection error.'')
   \<and> snd (transformImage describe_down_world (js ''aGVsbG8='') (js ''anime''))
     = Inl (js ''Failed to transform image: Connection error.'')
   \<and> chat_completions_create generate_down_world (vision_request (js ''aGVsbG8=''))
     = Resolves (Some (js ''a smiling person outdoors''))
   \<and> images_generate generate_down_world
       (generation_request (finalPrompt anime_template (js ''a smiling person outdoors'')))
     = Rejects (js ''Connection error.'')
   \<and> snd (transformImage generate_down_world (js ''aGVsbG8='') (js ''anime''))
     = Inl (js ''Failed to transform image: Connection error.'')"
proof -
  have "snd (transformImage describe_down_world (js ''aGVsbG8='') (js ''anime''))
     = Inl (js ''Failed to transform image: Connection error.'')"
    by (simp add: transformImage_def describe_down_world_def rethrow_connection)
  moreover have "snd (transformImage generate_down_world (js ''aGVsbG8='') (js ''anime''))
     = Inl (js ''Failed to transform image: Connection error.'')"
    using transformImage_described [of generate_down_world "js ''aGVsbG8=''"
        "js ''a smiling person outdoors''" "js ''anime''"]
    by (simp add: generate_down_world_def trim_smiling js_Nil_iff rethrow_connection Let_def)
  ultimately show ?thesis
    by (simp add: describe_down_world_def generate_down_world_def)
qed

text \<open>
  Claim C4, as the code has it. For each of the five style identifiers \<open>STYLE_PROMPTS\<close>
  holds a non-empty template. For any other string it holds none, and the check is made
  by the handler of POST /api/transform, not by \<open>transformImage\<close>: the handler answers
  400 "Invalid style selected" without calling \<open>transformImage\<close>, hence before any
  external call, whatever the image field holds.
\<close>

theorem style_lookup_and_gate:
  "(s \<in> set style_enum \<longrightarrow> (\<exists>template. map_of STYLE_PROMPTS s = Some template \<and> template \<noteq> []))
   \<and> (s' \<notin> set style_enum \<longrightarrow>
        map_of STYLE_PROMPTS s' = None
        \<and> post_api_transform api \<lparr>body_style = Some s', body_imageBase64 = b\<rparr>
            = ([], Json_message 400 (js ''Invalid style selected'')))"
proof (intro conjI impI)
  assume "s \<in> set style_enum"
  then show "\<exists>template. map_of STYLE_PROMPTS s = Some template \<and> template \<noteq> []"
    by (auto simp add: style_enum_def STYLE_PROMPTS_def js_eq_iff js_Nil_iff)
next
  assume "s' \<notin> set style_enum"
  then show "map_of STYLE_PROMPTS s' = None"
    by (rule STYLE_PROMPTS_other)
next
  assume "s' \<notin> set style_enum"
  then show "post_api_transform api \<lparr>body_style = Some s', body_imageBase64 = b\<rparr>
            = ([], Json_message 400 (js ''Invalid style selected''))"
    by (simp add: post_api_transform_def styleTransformSchema_safeParse_def)
qed

theorem style_lookup_and_gate_witness:
  "(\<exists>template. map_of STYLE_PROMPTS (js ''anime'') = Some template \<and> template \<noteq> [])
   \<and> map_of STYLE_PROMPTS (js ''cubist'') = None
   \<and> post_api_transform smiling_world
        \<lparr>body_style = Some (js ''cubist''), body_imageBase64 = Some (js ''aGVsbG8='')\<rparr>
      = ([], Json_message 400 (js ''Invalid style selected''))"
  using style_lookup_and_gate [of "js ''anime''" "js ''cubist''" smiling_world
      "Some (js ''aGVsbG8='')"] cubist_not_a_style
  by (simp add: style_enum_def js_eq_iff)

text \<open>
  Called with a string outside the catalog, \<open>transformImage\<close> does not fail: it makes
  both external calls, with a prompt that starts with the text "undefined".
\<close>

theorem transform_unknown_style_counterexample:
  "js ''cubist'' \<notin> set style_enum
   \<and> transformImage smiling_world (js ''aGVsbG8='') (js ''cubist'') =
     ([Chat_call (vision_request (js ''aGVsbG8='')),
       Images_call
         (generation_request (finalPrompt (js ''undefined'') (js ''a smiling person outdoors'')))],
      Inr (js ''https://images.example/out.png''))"
  using transformImage_described [of smiling_world "js ''aGVsbG8=''"
      "js ''a smiling person outdoors''" "js ''cubist''"]
    STYLE_PROMPTS_other [OF cubist_not_a_style] cubist_not_a_style
  by (simp add: smiling_world_def trim_smiling js_Nil_iff stylePrompt_text_def Let_def)

section \<open>The record store: identifiers and queries\<close>

lemma Map_set_fresh: "k \<notin> fst ` set m \<Longrightarrow> Map_set m k v = m @ [(k, v)]"
  by (induction m) auto

lemma Map_set_next:
  assumes "1 \<le> c" and "map fst m = [1..c - 1]"
  shows "Map_set m c v = m @ [(c, v)]" and "map fst (Map_set m c v) = [1..c + 1 - 1]"
proof -
  have "c \<notin> set (map fst m)" using assms by simp
  then show a: "Map_set m c v = m @ [(c, v)]"
    by (simp add: Map_set_fresh)
  show "map fst (Map_set m c v) = [1..c + 1 - 1]"
    using assms by (simp add: a upto_rec2)
qed

lemma counters_ok_new: "counters_ok new_MemStorage"
  by (simp add: counters_ok_def new_MemStorage_def)

lemma createUser_step:
  assumes "counters_ok s" and "createUser s u = (r, s')"
  shows "counters_ok s'" and "user_id r = userIdCounter s"
    and "userIdCounter s' = userIdCounter s + 1"
    and "users s' = users s @ [(userIdCounter s, r)]"
    and "images s' = images s" and "imageIdCounter s' = imageIdCounter s"
    and "transformations s' = transformations s"
    and "transformationIdCounter s' = transformationIdCounter s"
  using assms Map_set_next [of "userIdCounter s" "users s"]
  by (auto simp add: counters_ok_def createUser_def Let_def)

lemma createImage_step:
  assumes "counters_ok s" and "createImage s u now = (r, s')"
  shows "counters_ok s'" and "image_id r = imageIdCounter s"
    and "imageIdCounter s' = imageIdCounter s + 1"
    and "images s' = images s @ [(imageIdCounter s, r)]"
    and "users s' = users s" and "userIdCounter s' = userIdCounter s"
    and "transformations s' = transformations s"
    and "transformationIdCounter s' = transformationIdCounter s"
  using assms Map_set_next [of "imageIdCounter s" "images s"]
  by (auto simp add: counters_ok_def createImage_def Let_def)

lemma createTransformation_step:
  assumes "counters_ok s" and "createTransformation s u now = (r, s')"
  shows "counters_ok s'" and "transformation_id r = transformationIdCounter s"
    and "transformationIdCounter s' = transformationIdCounter s + 1"
    and "transformations s' = transformations s @ [(transformationIdCounter s, r)]"
    and "users s' = users s" and "userIdCounter s' = userIdCounter s"
    and "images s' = images s" and "imageIdCounter s' = imageIdCounter s"
  using assms Map_set_next [of "transformationIdCounter s" "transformations s"]
  by (auto simp add: counters_ok_def createTransformation_def Let_def)

lemma upto_cons: "i \<le> j \<Longrightarrow> i # [i + 1..j] = [i..j]"
  by (simp add: upto_rec1)

lemma run_store:
  assumes "counters_ok s" and "run s cs = (rs, s')"
  shows "counters_ok s'
    \<and> map user_id (created_users rs) = [userIdCounter s..userIdCounter s' - 1]
    \<and> map image_id (created_images rs) = [imageIdCounter s..imageIdCounter s' - 1]
    \<and> map transformation_id (created_transformations rs)
        = [transformationIdCounter s..transformationIdCounter s' - 1]
    \<and> userIdCounter s \<le> userIdCounter s'
    \<and> imageIdCounter s \<le> imageIdCounter s'
    \<and> transformationIdCounter s \<le> transformationIdCounter s'
    \<and> Map_values (users s') = Map_values (users s) @ created_users rs
    \<and> Map_values (images s') = Map_values (images s) @ created_images rs
    \<and> Map_values (transformations s')
        = Map_values (transformations s) @ created_transformations rs"
  using assms
proof (induction cs arbitrary: s rs)
  case Nil
  then show ?case by simp
next
  case (Cons c cs)
  obtain r s1 where p: "perform s c = (r, s1)"
    by (cases "perform s c")
  obtain rs1 where r: "run s1 cs = (rs1, s')" and rs: "rs = r # rs1"
    using Cons.prems(2) p by (auto split: prod.splits)
  show ?case
  proof (cases c)
    case (CreateUser u)
    then obtain x where x: "createUser s u = (x, s1)" "r = CreatedUser x"
      using p by (auto split: prod.splits)
    note st = createUser_step [OF Cons.prems(1) x(1)]
    from Cons.IH [OF st(1) r] show ?thesis
      by (simp add: rs x(2) st Map_values_def upto_cons)
  next
    case (CreateImage u now)
    then obtain x where x: "createImage s u now = (x, s1)" "r = CreatedImage x"
      using p by (auto split: prod.splits)
    note st = createImage_step [OF Cons.prems(1) x(1)]
    from Cons.IH [OF st(1) r] show ?thesis
      by (simp add: rs x(2) st Map_values_def upto_cons)
  next
    case (CreateTransformation u now)
    then obtain x where x: "createTransformation s u now = (x, s1)"
        "r = CreatedTransformation x"
      using p by (auto split: prod.splits)
    note st = createTransformation_step [OF Cons.prems(1) x(1)]
    from Cons.IH [OF st(1) r] show ?thesis
      by (simp add: rs x(2) st Map_values_def upto_cons)
  qed
qed

lemma Map_get_absent: "i \<notin> set (map fst m) \<Longrightarrow> Map_get m i = None"
  by (simp add: Map_get_def map_of_eq_None_iff)

lemma length_upto_1: "0 \<le> n \<Longrightarrow> length [1..n] = nat n"
  by simp

text \<open>
  Claim C5. In a store that started empty, whatever sequence of create calls was made,
  the identifiers handed out for each kind of record are \<open>1, 2, ..., N\<close> in call order,
  \<open>N\<close> being the number of records of that kind created (so they are distinct,
  strictly increasing, start at 1 and step by 1), and each of the three get methods
  returns absent (\<open>None\<close>, not an error) for an identifier that was never handed out.
\<close>

theorem identifiers_count_from_one:
  assumes "run new_MemStorage cs = (rs, s)"
  shows "map user_id (created_users rs) = [1..int (length (created_users rs))]
    \<and> map image_id (created_images rs) = [1..int (length (created_images rs))]
    \<and> map transformation_id (created_transformations rs)
        = [1..int (length (created_transformations rs))]
    \<and> (i \<notin> set (map user_id (created_users rs)) \<longrightarrow> getUser s i = None)
    \<and> (i \<notin> set (map image_id (created_images rs)) \<longrightarrow> getImage s i = None)
    \<and> (i \<notin> set (map transformation_id (created_transformations rs))
        \<longrightarrow> getTransformation s i = None)"
proof -
  note r = run_store [OF counters_ok_new assms]
  have c: "counters_ok s" using r by simp
  have u: "map user_id (created_users rs) = [1..userIdCounter s - 1]"
    and i: "map image_id (created_images rs) = [1..imageIdCounter s - 1]"
    and t: "map transformation_id (created_transformations rs)
              = [1..transformationIdCounter s - 1]"
    using r by (simp_all add: new_MemStorage_def)
  have lu: "int (length (created_users rs)) = userIdCounter s - 1"
    using arg_cong [OF u, of length] c by (simp add: counters_ok_def)
  have li: "int (length (created_images rs)) = imageIdCounter s - 1"
    using arg_cong [OF i, of length] c by (simp add: counters_ok_def)
  have lt: "int (length (created_transformations rs)) = transformationIdCounter s - 1"
    using arg_cong [OF t, of length] c by (simp add: counters_ok_def)
  have gu: "i \<notin> set (map user_id (created_users rs)) \<longrightarrow> getUser s i = None"
    using c unfolding u getUser_def counters_ok_def by (metis Map_get_absent)
  have gi: "i \<notin> set (map image_id (created_images rs)) \<longrightarrow> getImage s i = None"
    using c unfolding i getImage_def counters_ok_def by (metis Map_get_absent)
  have gt: "i \<notin> set (map transformation_id (created_transformations rs))
      \<longrightarrow> getTransformation s i = None"
    using c unfolding t getTransformation_def counters_ok_def by (metis Map_get_absent)
  show ?thesis
    using u i t gu gi gt by (simp only: lu li lt)
qed

text \<open>
  Claim C6. In every state the store reaches, \<open>getTransformationsByImageId\<close> returns
  exactly the transformations created so far whose \<open>imageId\<close> is the argument, in the
  order of their creation; nothing bounds the length of the result.
\<close>

theorem transformations_by_image:
  assumes "run new_MemStorage cs = (rs, s)"
  shows "getTransformationsByImageId s i
         = filter (\<lambda>t. imageId t = i) (created_transformations rs)"
  using run_store [OF counters_ok_new assms]
  by (simp add: getTransformationsByImageId_def new_MemStorage_def Map_values_def)


lemmas example_defs = example_calls_def alice_def alice_again_def photo_def as_anime_def
  as_lego_def new_MemStorage_def createUser_def createImage_def createTransformation_def
  Let_def

theorem identifiers_count_from_one_witness:
  "map user_id (created_users (fst (run new_MemStorage example_calls))) = [1, 2]
   \<and> map transformation_id (created_transformations (fst (run new_MemStorage example_calls)))
       = [1, 2, 3]
   \<and> getUser (snd (run new_MemStorage example_calls)) 3 = None
   \<and> getImage (snd (run new_MemStorage example_calls)) 2 = None
   \<and> getTransformation (snd (run new_MemStorage example_calls)) 0 = None"
  using identifiers_count_from_one [of example_calls "fst (run new_MemStorage example_calls)"
      "snd (run new_MemStorage example_calls)" 3]
    identifiers_count_from_one [of example_calls "fst (run new_MemStorage example_calls)"
      "snd (run new_MemStorage example_calls)" 2]
    identifiers_count_from_one [of example_calls "fst (run new_MemStorage example_calls)"
      "snd (run new_MemStorage example_calls)" 0]
  by (simp add: example_defs upto.simps)

theorem transformations_by_image_witness:
  "getTransformationsByImageId (snd (run new_MemStorage example_calls)) 1 =
     [\<lparr>transformation_id = 1, imageId = 1, transformation_style = js ''anime'',
       transformedUrl = js ''https://images.example/anime.png'',
       transformation_createdAt = js ''2025-01-01T00:00:01.000Z''\<rparr>,
      \<lparr>transformation_id = 3, imageId = 1, transformation_style = js ''lego'',
       transformedUrl = js ''https://images.example/lego.png'',
       transformation_createdAt = js ''2025-01-01T00:00:03.000Z''\<rparr>]"
  using transformations_by_image [of example_calls "fst (run new_MemStorage example_calls)"
      "snd (run new_MemStorage example_calls)" 1]
  by (simp add: example_defs)

text \<open>
  Claim C9. Usernames of stored users are not kept unique: \<open>createUser\<close> stores what it
  is given. Two calls with the username \<open>alice\<close> leave two users with that username, under
  the identifiers 1 and 2, although the \<open>users\<close> table of shared/schema.ts declares the
  column \<open>unique()\<close>.
\<close>

theorem createUser_duplicate_username:
  "Map_values (users (snd (run new_MemStorage [CreateUser alice, CreateUser alice_again]))) =
     [\<lparr>user_id = 1, username = js ''alice'', password = js ''secret''\<rparr>,
      \<lparr>user_id = 2, username = js ''alice'', password = js ''other''\<rparr>]"
  by (simp add: example_defs Map_values_def)


section \<open>Upload\<close>

subsection \<open>Base64 decoding inverts the encoding\<close>

lemma index_of_nth: "distinct xs \<Longrightarrow> k < length xs \<Longrightarrow> index_of (xs ! k) xs = Some k"
proof (induction xs arbitrary: k)
  case Nil
  then show ?case by simp
next
  case (Cons x xs)
  then show ?case by (cases k) auto
qed

lemma base64_alphabet_props:
  "length base64_alphabet = 64" "distinct base64_alphabet" "61 \<notin> set base64_alphabet"
  by (simp_all add: base64_alphabet_def js_def)

lemma char_sextet_char: "char_sextet (sextet_char v) = Some (v mod 64)"
  by (simp add: char_sextet_def sextet_char_def index_of_nth base64_alphabet_props)

lemma sextet_char_not_pad: "sextet_char v \<noteq> 61"
proof -
  have "sextet_char v \<in> set base64_alphabet"
    by (simp add: sextet_char_def base64_alphabet_props)
  then show ?thesis using base64_alphabet_props(3) by metis
qed

lemma recompose:
  fixes v :: nat
  assumes "v < 16777216"
  shows "v div 262144 mod 64 * 262144 + v div 4096 mod 64 * 4096 + v div 64 mod 64 * 64 + v mod 64 = v"
proof -
  have a: "v mod 4096 = 64 * (v div 64 mod 64) + v mod 64"
    using mod_mult2_eq [of v 64 64] by simp
  have b: "v mod 262144 = 4096 * (v div 4096 mod 64) + v mod 4096"
    using mod_mult2_eq [of v 4096 64] by simp
  have c: "v mod 16777216 = 262144 * (v div 262144 mod 64) + v mod 262144"
    using mod_mult2_eq [of v 262144 64] by simp
  have "v mod 16777216 = v" using assms by simp
  with a b c show ?thesis by simp
qed

lemma split3:
  fixes x y z :: nat
  assumes "y < 256" "z < 256"
  shows "(x * 65536 + y * 256 + z) div 65536 = x"
    and "(x * 65536 + y * 256 + z) div 256 mod 256 = y"
    and "(x * 65536 + y * 256 + z) mod 256 = z"
proof -
  have l: "y * 256 + z < 65536" using assms by simp
  have "(x * 65536 + y * 256 + z) div 65536 = (y * 256 + z + x * 65536) div 65536"
    by (simp add: add.commute add.left_commute)
  also have "\<dots> = x" using l by simp
  finally show "(x * 65536 + y * 256 + z) div 65536 = x" .
  have e: "(x * 65536 + y * 256 + z) = z + (x * 256 + y) * 256" by simp
  have d: "(x * 65536 + y * 256 + z) div 256 = x * 256 + y"
    unfolding e using assms(2) by simp
  show "(x * 65536 + y * 256 + z) div 256 mod 256 = y"
    unfolding d using assms(1) by simp
  show "(x * 65536 + y * 256 + z) mod 256 = z"
    unfolding e by (simp only: mod_mult_self1 mod_less [OF assms(2)])
qed

lemma split2:
  fixes x y :: nat
  assumes "y < 256"
  shows "(x * 65536 + y * 256) div 64 div 1024 = x"
    and "(x * 65536 + y * 256) div 64 div 4 mod 256 = y"
proof -
  have e: "(x * 65536 + y * 256) = (x * 1024 + y * 4) * 64" by simp
  have d: "(x * 65536 + y * 256) div 64 = x * 1024 + y * 4"
    unfolding e by simp
  have l: "y * 4 < 1024" using assms by simp
  have "(x * 1024 + y * 4) div 1024 = (y * 4 + x * 1024) div 1024"
    by (simp add: add.commute)
  also have "\<dots> = x" using l by simp
  finally show "(x * 65536 + y * 256) div 64 div 1024 = x" unfolding d .
  have f: "x * 1024 + y * 4 = (x * 256 + y) * 4" by simp
  show "(x * 65536 + y * 256) div 64 div 4 mod 256 = y"
    unfolding d f using assms by simp
qed

lemma recompose2:
  fixes v :: nat
  assumes "v < 16777216"
  shows "v div 262144 mod 64 * 4096 + v div 4096 mod 64 * 64 + v div 64 mod 64 = v div 64"
proof -
  have a: "v div 64 mod 4096 = 64 * (v div 64 div 64 mod 64) + v div 64 mod 64"
    using mod_mult2_eq [of "v div 64" 64 64] by simp
  have b: "v div 64 mod 262144 = 4096 * (v div 64 div 4096 mod 64) + v div 64 mod 4096"
    using mod_mult2_eq [of "v div 64" 4096 64] by simp
  have "v div 64 < 262144" using assms by simp
  then have "v div 64 mod 262144 = v div 64" by simp
  with a b show ?thesis by (simp add: div_mult2_eq [symmetric])
qed

lemma recompose1:
  fixes v :: nat
  assumes "v < 16777216"
  shows "v div 262144 mod 64 * 64 + v div 4096 mod 64 = v div 4096"
proof -
  have a: "v div 4096 mod 4096 = 64 * (v div 4096 div 64 mod 64) + v div 4096 mod 64"
    using mod_mult2_eq [of "v div 4096" 64 64] by simp
  have "v div 4096 < 4096" using assms by simp
  then have "v div 4096 mod 4096 = v div 4096" by simp
  with a show ?thesis by (simp add: div_mult2_eq [symmetric])
qed

lemma split1: "(x * 65536) div 4096 div 16 = (x :: nat)"
  by (simp add: div_mult2_eq [symmetric])


lemma unat_byte: "unat (a :: byte) < 256"
  using unsigned_less [of a] by simp

lemma decode_group3:
  assumes "v < 16777216"
  shows "base64_decode (sextet_char (v div 262144) # sextet_char (v div 4096)
           # sextet_char (v div 64) # sextet_char v # rest)
         = (case base64_decode rest of
              None \<Rightarrow> None
            | Some bytes \<Rightarrow>
                Some (of_nat (v div 65536) # of_nat (v div 256 mod 256) # of_nat (v mod 256)
                      # bytes))"
  by (simp add: char_sextet_char sextet_char_not_pad Let_def recompose [OF assms]
      split: option.split)

lemma decode_group2:
  assumes "v < 16777216"
  shows "base64_decode [sextet_char (v div 262144), sextet_char (v div 4096),
           sextet_char (v div 64), 61]
         = Some [of_nat (v div 64 div 1024), of_nat (v div 64 div 4 mod 256)]"
  by (simp add: char_sextet_char sextet_char_not_pad Let_def recompose2 [OF assms])

lemma decode_group1:
  assumes "v < 16777216"
  shows "base64_decode [sextet_char (v div 262144), sextet_char (v div 4096), 61, 61]
         = Some [of_nat (v div 4096 div 16)]"
  by (simp add: char_sextet_char Let_def recompose1 [OF assms])

lemma bound3: "unat (a :: byte) * 65536 + unat (b :: byte) * 256 + unat (c :: byte) < 16777216"
  using unat_byte [of a] unat_byte [of b] unat_byte [of c] by simp

lemma bound2: "unat (a :: byte) * 65536 + unat (b :: byte) * 256 < 16777216"
  using unat_byte [of a] unat_byte [of b] by simp

lemma bound1: "unat (a :: byte) * 65536 < 16777216"
  using unat_byte [of a] by simp

lemma base64_roundtrip: "base64_decode (base64 bytes) = Some bytes"
proof (induction bytes rule: base64.induct)
  case (1 a b c rest)
  have "base64_decode (base64 (a # b # c # rest))
        = (case base64_decode (base64 rest) of
             None \<Rightarrow> None
           | Some bytes \<Rightarrow>
               Some (of_nat ((unat a * 65536 + unat b * 256 + unat c) div 65536)
                     # of_nat ((unat a * 65536 + unat b * 256 + unat c) div 256 mod 256)
                     # of_nat ((unat a * 65536 + unat b * 256 + unat c) mod 256) # bytes))"
    by (simp only: base64.simps Let_def decode_group3 [OF bound3])
  then show ?case
    by (simp only: 1 split3 [OF unat_byte unat_byte] option.case of_nat_unat ucast_id)
next
  case (2 a b)
  have "base64_decode (base64 [a, b])
        = Some [of_nat ((unat a * 65536 + unat b * 256) div 64 div 1024),
                of_nat ((unat a * 65536 + unat b * 256) div 64 div 4 mod 256)]"
    by (simp only: base64.simps Let_def decode_group2 [OF bound2])
  then show ?case
    by (simp only: split2 [OF unat_byte] of_nat_unat ucast_id)
next
  case (3 a)
  have "base64_decode (base64 [a]) = Some [of_nat ((unat a * 65536) div 4096 div 16)]"
    by (simp only: base64.simps Let_def decode_group1 [OF bound1])
  then show ?case
    by (simp only: split1 of_nat_unat ucast_id)
next
  case 4
  show ?case by simp
qed

lemma allowed_startsWith: "mime \<in> set allowed_types \<Longrightarrow> startsWith mime (js ''image/'')"
  by (auto simp add: allowed_types_def startsWith_def js_def)

lemma fileFilter_allowed: "mime \<in> set allowed_types \<Longrightarrow> fileFilter mime = None"
  by (simp add: fileFilter_def allowed_startsWith)

lemma fileFilter_other:
  "mime \<notin> set allowed_types \<Longrightarrow>
     fileFilter mime = Some (js ''Only image files are allowed'')
     \<or> fileFilter mime = Some (js ''Please upload a valid image (JPG, PNG, WEBP)'')"
  by (simp add: fileFilter_def)

lemma png_allowed: "js ''image/png'' \<in> set allowed_types"
  and jpeg_allowed: "js ''image/jpeg'' \<in> set allowed_types"
  and text_not_allowed: "js ''text/plain'' \<notin> set allowed_types"
  by (simp_all add: allowed_types_def js_eq_iff)

lemma validateFile_type_first:
  "file_type b \<notin> set allowed_types \<Longrightarrow>
     validateFile b = Some (js ''Please upload a valid image (JPG, PNG, WEBP)'')"
  by (simp add: validateFile_def)

text \<open>
  Claim C7, as the code has it. Every payload larger than 5 MiB is rejected by the
  multer upload whatever its declared MIME type, and every payload whose declared MIME
  type is not \<open>image/jpeg\<close>, \<open>image/png\<close> or \<open>image/webp\<close> is rejected whatever its size,
  each time with a human-readable reason; a payload of a type that is not allowed is
  rejected with a reason about its type, also when it is too large, since the file
  filter decides first. \<open>imageUploadSchema\<close> rejects the same payloads, and it is the
  validator that checks the size first: its first message is the one about the size
  whenever the size is over the limit.
\<close>

theorem upload_rejects:
  "(5 * 1024 * 1024 < length (buffer f) \<longrightarrow>
      upload_single (Some f) \<in>
        {Inl (js ''Only image files are allowed''),
         Inl (js ''Please upload a valid image (JPG, PNG, WEBP)''),
         Inl (js ''File too large'')})
   \<and> (mimetype f' \<notin> set allowed_types \<longrightarrow>
      upload_single (Some f') \<in>
        {Inl (js ''Only image files are allowed''),
         Inl (js ''Please upload a valid image (JPG, PNG, WEBP)'')})
   \<and> (5 * 1024 * 1024 < file_size b \<longrightarrow>
      imageUploadSchema b \<noteq> []
      \<and> hd (imageUploadSchema b) = js ''Image size should not exceed 5MB'')
   \<and> (file_type b' \<notin> set allowed_types \<longrightarrow>
      imageUploadSchema b' \<noteq> []
      \<and> last (imageUploadSchema b') = js ''Please upload a valid image (JPG, PNG, WEBP)'')"
proof (intro conjI impI)
  assume "5 * 1024 * 1024 < length (buffer f)"
  then show "upload_single (Some f) \<in>
        {Inl (js ''Only image files are allowed''),
         Inl (js ''Please upload a valid image (JPG, PNG, WEBP)''),
         Inl (js ''File too large'')}"
    by (simp add: upload_single_def fileFilter_def fileSize_def)
next
  assume "mimetype f' \<notin> set allowed_types"
  then show "upload_single (Some f') \<in>
        {Inl (js ''Only image files are allowed''),
         Inl (js ''Please upload a valid image (JPG, PNG, WEBP)'')}"
    by (simp add: upload_single_def fileFilter_def)
next
  assume "5 * 1024 * 1024 < file_size b"
  then show "imageUploadSchema b \<noteq> []"
    and "hd (imageUploadSchema b) = js ''Image size should not exceed 5MB''"
    by (simp_all add: imageUploadSchema_def)
next
  assume "file_type b' \<notin> set allowed_types"
  then show "imageUploadSchema b' \<noteq> []"
    and "last (imageUploadSchema b') = js ''Please upload a valid image (JPG, PNG, WEBP)''"
    by (simp_all add: imageUploadSchema_def)
qed

theorem upload_rejects_witness:
  "upload_single (Some big_jpeg_file) = Inl (js ''File too large'')
   \<and> upload_single (Some big_text_file) = Inl (js ''Only image files are allowed'')
   \<and> imageUploadSchema big_jpeg = [js ''Image size should not exceed 5MB'']
   \<and> imageUploadSchema big_text =
       [js ''Image size should not exceed 5MB'',
        js ''Please upload a valid image (JPG, PNG, WEBP)'']"
  using upload_rejects [of big_jpeg_file big_text_file big_jpeg big_text]
    jpeg_allowed text_not_allowed
  by (simp add: big_jpeg_file_def big_text_file_def big_jpeg_def big_text_def
      upload_single_def fileFilter_allowed fileFilter_def startsWith_def js_def fileSize_def
      imageUploadSchema_def)

text \<open>
  A text file of 6 MiB: the multer upload and the client's \<open>validateFile\<close> both reject it
  for its type, not for its size. The size is not what they check first.
\<close>

theorem upload_checks_type_first_counterexample:
  "5 * 1024 * 1024 < length (buffer big_text_file)
   \<and> upload_single (Some big_text_file) = Inl (js ''Only image files are allowed'')
   \<and> 5 * 1024 * 1024 < file_size big_text
   \<and> validateFile big_text = Some (js ''Please upload a valid image (JPG, PNG, WEBP)'')"
  using text_not_allowed
  by (simp add: big_text_file_def big_text_def upload_single_def fileFilter_def startsWith_def
      js_def validateFile_def)

text \<open>The valid payloads: what the multer upload admits.\<close>

lemma upload_single_admits_iff:
  "upload_single (Some f) = Inr (Some f)
   \<longleftrightarrow> mimetype f \<in> set allowed_types \<and> length (buffer f) < 5 * 1024 * 1024"
proof (cases "mimetype f \<in> set allowed_types")
  case True
  then show ?thesis
    by (simp add: upload_single_def fileFilter_allowed fileSize_def not_le)
next
  case False
  then have "fileFilter (mimetype f) \<noteq> None"
    by (simp add: fileFilter_def)
  with False show ?thesis
    by (auto simp add: upload_single_def)
qed






end
